theory Spec2Isabelle
  imports Main
begin

section \<open>The tree handed over by xmltodict, and Python's view of it\<close>

text \<open>
  \<^verbatim>\<open>xmltodict.parse\<close> is an external collaborator. It returns a tree made of
  \<^verbatim>\<open>dict\<close>, \<^verbatim>\<open>list\<close>, \<^verbatim>\<open>str\<close> and \<^verbatim>\<open>None\<close>;
  the model starts from that tree. A \<^verbatim>\<open>dict\<close> is an association list in insertion
  order (the code reads \<^verbatim>\<open>list(e.values())[1]\<close>, so order matters); a Python dict
  has no repeated key. Strings are sequences of code points below 256.
  The values the function returns are trees of the same kind.
\<close>

datatype xval =
    XNone
  | XStr string
  | XDict "(string \<times> xval) list"
  | XList "xval list"

text \<open>Every exception the code can raise is a value. \<open>Exception msg\<close> is the bare
  \<^verbatim>\<open>Exception(msg)\<close> that the function raises itself; the others come from the
  interpreter and the standard library.\<close>

datatype error =
    AttributeError
  | TypeError
  | ValueError
  | IndexError
  | OverflowError
  | Exception string

definition and_then :: "error + 'a \<Rightarrow> ('a \<Rightarrow> error + 'b) \<Rightarrow> error + 'b" where
  "and_then r f = (case r of Inl e \<Rightarrow> Inl e | Inr v \<Rightarrow> f v)"

text \<open>\<^verbatim>\<open>x.get(k)\<close>: only a dict has \<^verbatim>\<open>get\<close>; a missing key gives
  \<^verbatim>\<open>None\<close>.\<close>

fun dict_get :: "xval \<Rightarrow> string \<Rightarrow> error + xval" where
  "dict_get (XDict d) k = Inr (case map_of d k of None \<Rightarrow> XNone | Some v \<Rightarrow> v)"
| "dict_get _ k = Inl AttributeError"

text \<open>\<^verbatim>\<open>x.get(k, default)\<close>.\<close>

fun dict_get_default :: "xval \<Rightarrow> string \<Rightarrow> xval \<Rightarrow> error + xval" where
  "dict_get_default (XDict d) k dflt = Inr (case map_of d k of None \<Rightarrow> dflt | Some v \<Rightarrow> v)"
| "dict_get_default _ k dflt = Inl AttributeError"

text \<open>A chain \<^verbatim>\<open>x.get(k1).get(k2)...\<close>, left to right.\<close>

fun get_path :: "xval \<Rightarrow> string list \<Rightarrow> error + xval" where
  "get_path v [] = Inr v"
| "get_path v (k # ks) = and_then (dict_get v k) (\<lambda>w. get_path w ks)"

text \<open>Truth value of a tree in \<^verbatim>\<open>if x\<close> and \<^verbatim>\<open>not x\<close>.\<close>

fun truthy :: "xval \<Rightarrow> bool" where
  "truthy XNone = False"
| "truthy (XStr s) = (s \<noteq> [])"
| "truthy (XDict d) = (d \<noteq> [])"
| "truthy (XList xs) = (xs \<noteq> [])"

text \<open>\<^verbatim>\<open>isinstance(x, dict)\<close>.\<close>

fun is_dict :: "xval \<Rightarrow> bool" where
  "is_dict (XDict d) = True"
| "is_dict _ = False"

text \<open>The items \<^verbatim>\<open>for e in x\<close> visits: the elements of a list, the keys of a
  dict, the characters of a string; \<^verbatim>\<open>None\<close> is not iterable.\<close>

fun iter :: "xval \<Rightarrow> error + xval list" where
  "iter (XList xs) = Inr xs"
| "iter (XDict d) = Inr (map (\<lambda>kv. XStr (fst kv)) d)"
| "iter (XStr s) = Inr (map (\<lambda>c. XStr [c]) s)"
| "iter XNone = Inl TypeError"

text \<open>\<^verbatim>\<open>list(e.values())[i]\<close>.\<close>

fun values_index :: "xval \<Rightarrow> nat \<Rightarrow> error + xval" where
  "values_index (XDict d) i = (if i < length d then Inr (snd (d ! i)) else Inl IndexError)"
| "values_index _ i = Inl AttributeError"

text \<open>A list comprehension \<^verbatim>\<open>[f(x) for x in xs]\<close>: left to right, the first
  exception ends it.\<close>

fun comprehension :: "('a \<Rightarrow> error + 'b) \<Rightarrow> 'a list \<Rightarrow> error + 'b list" where
  "comprehension f [] = Inr []"
| "comprehension f (x # xs) =
     and_then (f x) (\<lambda>y. and_then (comprehension f xs) (\<lambda>ys. Inr (y # ys)))"


section \<open>The standard library: \<^verbatim>\<open>int\<close>, \<^verbatim>\<open>datetime\<close>\<close>

subsection \<open>Decimal digits\<close>

definition digits :: string where
  "digits = ''0123456789''"

definition digits19 :: string where
  "digits19 = ''123456789''"

definition is_digit :: "char \<Rightarrow> bool" where
  "is_digit c = (c \<in> set digits)"

definition digit_val :: "char \<Rightarrow> int" where
  "digit_val c = int (of_char c) - 48"

definition int_of_digits :: "string \<Rightarrow> int" where
  "int_of_digits s = foldl (\<lambda>n c. 10 * n + digit_val c) 0 s"

subsection \<open>\<^verbatim>\<open>int(x)\<close>\<close>

text \<open>
  On a string, CPython 3.11 strips white space on both sides, reads an optional sign and
  then decimal digits, where single underscores may stand between digits; more than 4300
  digits are refused. Anything that is not a string here (\<^verbatim>\<open>None\<close>, a dict, a list)
  is a \<^verbatim>\<open>TypeError\<close>.
\<close>

definition int_space :: "char \<Rightarrow> bool" where
  "int_space c = (c \<in> set [CHR 0x09, CHR 0x0A, CHR 0x0B, CHR 0x0C, CHR 0x0D, CHR '' '',
                             CHR 0x85, CHR 0xA0])"

definition strip :: "string \<Rightarrow> string" where
  "strip s = rev (dropWhile int_space (rev (dropWhile int_space s)))"

text \<open>The body after the sign: digits, with single underscores only between digits.\<close>

fun digit_groups :: "string \<Rightarrow> bool" where
  "digit_groups [] = False"
| "digit_groups [c] = is_digit c"
| "digit_groups (c # u # s) =
     (is_digit c \<and> (if u = CHR ''_'' then digit_groups s else digit_groups (u # s)))"

definition int_of_str :: "string \<Rightarrow> error + int" where
  "int_of_str s =
     (let t = strip s;
          neg = (t \<noteq> [] \<and> hd t = CHR ''-'');
          body = (if t \<noteq> [] \<and> (hd t = CHR ''-'' \<or> hd t = CHR ''+'') then tl t else t);
          ds = filter is_digit body
      in if \<not> digit_groups body \<or> length ds > 4300 then Inl ValueError
         else Inr (if neg then - int_of_digits ds else int_of_digits ds))"

fun py_int :: "xval \<Rightarrow> error + int" where
  "py_int (XStr s) = int_of_str s"
| "py_int _ = Inl TypeError"

subsection \<open>\<^verbatim>\<open>%d\<close> formatting\<close>

fun dec :: "nat \<Rightarrow> string" where
  "dec n = (if n < 10 then [digits ! n] else dec (n div 10) @ [digits ! (n mod 10)])"

declare dec.simps [simp del]

text \<open>\<^verbatim>\<open>"%0wd" % n\<close>.\<close>

definition fmt_d :: "nat \<Rightarrow> int \<Rightarrow> string" where
  "fmt_d w n =
     (if n < 0 then CHR ''-'' # replicate (w - 1 - length (dec (nat (- n)))) CHR ''0'' @ dec (nat (- n))
      else replicate (w - length (dec (nat n))) CHR ''0'' @ dec (nat n))"

subsection \<open>The proleptic Gregorian calendar of \<^verbatim>\<open>datetime\<close>\<close>

definition is_leap :: "int \<Rightarrow> bool" where
  "is_leap y = (y mod 4 = 0 \<and> (y mod 100 \<noteq> 0 \<or> y mod 400 = 0))"

definition DAYS_IN_MONTH :: "int list" where
  "DAYS_IN_MONTH = [-1, 31, 28, 31, 30, 31, 30, 31, 31, 30, 31, 30, 31]"

definition DAYS_BEFORE_MONTH :: "int list" where
  "DAYS_BEFORE_MONTH = [-1, 0, 31, 59, 90, 120, 151, 181, 212, 243, 273, 304, 334]"

definition days_before_year :: "int \<Rightarrow> int" where
  "days_before_year y = (y - 1) * 365 + (y - 1) div 4 - (y - 1) div 100 + (y - 1) div 400"

definition days_in_month :: "int \<Rightarrow> int \<Rightarrow> int" where
  "days_in_month y m = (if m = 2 \<and> is_leap y then 29 else DAYS_IN_MONTH ! nat m)"

definition days_before_month :: "int \<Rightarrow> int \<Rightarrow> int" where
  "days_before_month y m = DAYS_BEFORE_MONTH ! nat m + (if m > 2 \<and> is_leap y then 1 else 0)"

definition ymd2ord :: "int \<Rightarrow> int \<Rightarrow> int \<Rightarrow> int" where
  "ymd2ord y m d = days_before_year y + days_before_month y m + d"

definition DI400Y :: int where "DI400Y = 146097"
definition DI100Y :: int where "DI100Y = 36524"
definition DI4Y :: int where "DI4Y = 1461"
definition MAXORDINAL :: int where "MAXORDINAL = 3652059"

definition ord2ymd :: "int \<Rightarrow> int \<times> int \<times> int" where
  "ord2ymd n0 =
     (let n = n0 - 1;
          n400 = n div DI400Y; n = n mod DI400Y;
          n100 = n div DI100Y; n = n mod DI100Y;
          n4 = n div DI4Y; n = n mod DI4Y;
          n1 = n div 365; n = n mod 365;
          y = n400 * 400 + 1 + n100 * 100 + n4 * 4 + n1
      in if n1 = 4 \<or> n100 = 4 then (y - 1, 12, 31)
         else
           let leapyear = (n1 = 3 \<and> (n4 \<noteq> 24 \<or> n100 = 3));
               month = (n + 50) div 32;
               preceding = DAYS_BEFORE_MONTH ! nat month + (if month > 2 \<and> leapyear then 1 else 0)
           in if preceding > n
              then (y, month - 1,
                    n - (preceding - (DAYS_IN_MONTH ! nat (month - 1)
                                      + (if month - 1 = 2 \<and> leapyear then 1 else 0))) + 1)
              else (y, month, n - preceding + 1))"

subsection \<open>An aware \<^verbatim>\<open>datetime\<close> with a fixed offset\<close>

text \<open>The format has no \<^verbatim>\<open>%f\<close>, so the microsecond of the time is 0 and stays 0 when
  whole hours are added; the record leaves it out. The offset is in microseconds.\<close>

record datetime =
  year :: int
  month :: int
  day :: int
  hour :: int
  minute :: int
  second :: int
  utcoffset :: int

subsection \<open>\<^verbatim>\<open>datetime.strptime(s, "%Y-%m-%dT%H:%M:%S%z")\<close>\<close>

text \<open>
  \<^verbatim>\<open>_strptime\<close> turns the format into a regular expression, compiled with
  \<^verbatim>\<open>IGNORECASE\<close>, takes the first match at the start of the string and refuses the
  string when the match does not end it. An alternative of a directive is a sequence of
  character classes; \<open>first_match\<close> tries the alternatives in the order of the
  expression. Each directive before \<^verbatim>\<open>%z\<close> is followed by a character that is no
  digit, so an alternative that matched is never given up for a later one.
\<close>

fun match_classes :: "string list \<Rightarrow> string \<Rightarrow> (string \<times> string) option" where
  "match_classes [] s = Some ([], s)"
| "match_classes (cl # cls) [] = None"
| "match_classes (cl # cls) (c # s) =
     (if c \<in> set cl then map_option (\<lambda>(m, r). (c # m, r)) (match_classes cls s) else None)"

fun first_match :: "string list list \<Rightarrow> string \<Rightarrow> (string \<times> string) option" where
  "first_match [] s = None"
| "first_match (alt # alts) s =
     (case match_classes alt s of Some r \<Rightarrow> Some r | None \<Rightarrow> first_match alts s)"

text \<open>\<^verbatim>\<open>(?P<Y>\\d\\d\\d\\d)\<close>\<close>
definition re_Y :: "string list list" where
  "re_Y = [[digits, digits, digits, digits]]"

text \<open>\<^verbatim>\<open>(?P<m>1[0-2]|0[1-9]|[1-9])\<close>\<close>
definition re_m :: "string list list" where
  "re_m = [[''1'', ''012''], [''0'', digits19], [digits19]]"

text \<open>\<^verbatim>\<open>(?P<d>3[0-1]|[1-2]\\d|0[1-9]|[1-9]| [1-9])\<close>\<close>
definition re_d :: "string list list" where
  "re_d = [[''3'', ''01''], [''12'', digits], [''0'', digits19], [digits19], ['' '', digits19]]"

text \<open>\<^verbatim>\<open>(?P<H>2[0-3]|[0-1]\\d|\\d)\<close>\<close>
definition re_H :: "string list list" where
  "re_H = [[''2'', ''0123''], [''01'', digits], [digits]]"

text \<open>\<^verbatim>\<open>(?P<M>[0-5]\\d|\\d)\<close>\<close>
definition re_M :: "string list list" where
  "re_M = [[''012345'', digits], [digits]]"

text \<open>\<^verbatim>\<open>(?P<S>6[0-1]|[0-5]\\d|\\d)\<close>\<close>
definition re_S :: "string list list" where
  "re_S = [[''6'', ''01''], [''012345'', digits], [digits]]"

text \<open>\<^verbatim>\<open>(?P<z>[+-]\\d\\d:?[0-5]\\d(:?[0-5]\\d(\\.\\d{1,6})?)?|(?-i:Z))\<close>: the optional
  parts are greedy, so the longer choice is tried first, the innermost choice varying
  fastest.\<close>
definition re_z :: "string list list" where
  "re_z =
     [[''+-'', digits, digits] @ c1 @ [''012345'', digits] @ g1.
        c1 \<leftarrow> [['':''], []],
        g1 \<leftarrow> [c2 @ [''012345'', digits] @ g2.
                 c2 \<leftarrow> [['':''], []],
                 g2 \<leftarrow> map (\<lambda>n. ''.'' # replicate n digits) [6, 5, 4, 3, 2, 1] @ [[]]] @ [[]]]
     @ [[''Z'']]"

text \<open>\<^verbatim>\<open>int(found_dict[...])\<close> on a matched group of digits (the day may start with
  a space, which \<^verbatim>\<open>int\<close> strips).\<close>
definition group_int :: "string \<Rightarrow> int" where
  "group_int g = int_of_digits (filter is_digit g)"

text \<open>The whole expression, group by group; the literals \<^verbatim>\<open>-\<close>, \<^verbatim>\<open>T\<close>
  (either case) and \<^verbatim>\<open>:\<close> stand between the groups. The result holds the six
  numbers, the text of group \<^verbatim>\<open>z\<close> and what the match left over.\<close>
definition match_format ::
  "string \<Rightarrow> (int \<times> int \<times> int \<times> int \<times> int \<times> int \<times> string \<times> string) option" where
  "match_format s =
     Option.bind (first_match re_Y s) (\<lambda>(gY, s).
     Option.bind (first_match [[''-'']] s) (\<lambda>(_, s).
     Option.bind (first_match re_m s) (\<lambda>(gm, s).
     Option.bind (first_match [[''-'']] s) (\<lambda>(_, s).
     Option.bind (first_match re_d s) (\<lambda>(gd, s).
     Option.bind (first_match [[''Tt'']] s) (\<lambda>(_, s).
     Option.bind (first_match re_H s) (\<lambda>(gH, s).
     Option.bind (first_match [['':'']] s) (\<lambda>(_, s).
     Option.bind (first_match re_M s) (\<lambda>(gM, s).
     Option.bind (first_match [['':'']] s) (\<lambda>(_, s).
     Option.bind (first_match re_S s) (\<lambda>(gS, s).
     Option.bind (first_match re_z s) (\<lambda>(gz, s).
       Some (group_int gY, group_int gm, group_int gd,
             group_int gH, group_int gM, group_int gS, gz, s)))))))))))))"

text \<open>\<^verbatim>\<open>z[i:j]\<close>.\<close>
definition slice :: "string \<Rightarrow> nat \<Rightarrow> nat \<Rightarrow> string" where
  "slice z i j = take (j - i) (drop i z)"

text \<open>The \<^verbatim>\<open>z\<close> branch of \<^verbatim>\<open>_strptime\<close>: the offset in microseconds
  (\<^verbatim>\<open>gmtoff\<close> seconds and \<^verbatim>\<open>gmtoff_fraction\<close> microseconds).\<close>
definition gmtoff :: "string \<Rightarrow> error + int" where
  "gmtoff z0 =
     (if z0 = ''Z'' then Inr 0
      else
        let colon = (z0 ! 3 = CHR '':'');
            z1 = (if colon then take 3 z0 @ drop 4 z0 else z0)
        in if colon \<and> length z1 > 5 \<and> z1 ! 5 \<noteq> CHR '':'' then Inl ValueError
           else
             let z = (if colon \<and> length z1 > 5 then take 5 z1 @ drop 6 z1 else z1) in
             and_then (int_of_str (slice z 1 3)) (\<lambda>hours.
             and_then (int_of_str (slice z 3 5)) (\<lambda>minutes.
             and_then (if slice z 5 7 = [] then Inr 0 else int_of_str (slice z 5 7)) (\<lambda>seconds.
             and_then (int_of_str (drop 8 z @ replicate (6 - length (drop 8 z)) CHR ''0''))
               (\<lambda>fraction.
                  let off = (hours * 60 * 60 + minutes * 60 + seconds) * 1000000 + fraction
                  in Inr (if hd z = CHR ''-'' then - off else off))))))"

definition DAY_US :: int where
  "DAY_US = 24 * 60 * 60 * 1000000"

text \<open>The constructors (\<^verbatim>\<open>date\<close>, \<^verbatim>\<open>datetime\<close>, \<^verbatim>\<open>timezone\<close>) check
  the ranges; each failure is a \<^verbatim>\<open>ValueError\<close>, as is a string that does not match.
  An argument that is no string is a \<^verbatim>\<open>TypeError\<close>.\<close>
fun strptime :: "xval \<Rightarrow> error + datetime" where
  "strptime (XStr s) =
     (case match_format s of
        None \<Rightarrow> Inl ValueError
      | Some (Y, m, d, H, M, S, z, rest) \<Rightarrow>
          if rest \<noteq> [] then Inl ValueError
          else and_then (gmtoff z) (\<lambda>off.
            if Y < 1 \<or> 9999 < Y \<or> d < 1 \<or> days_in_month Y m < d then Inl ValueError
            else if 59 < S then Inl ValueError
            else if off \<le> - DAY_US \<or> DAY_US \<le> off then Inl ValueError
            else Inr \<lparr>year = Y, month = m, day = d, hour = H, minute = M, second = S,
                      utcoffset = off\<rparr>))"
| "strptime _ = Inl TypeError"

declare strptime.simps [simp del]

subsection \<open>\<^verbatim>\<open>dt + timedelta(hours=n)\<close>\<close>

text \<open>The sum is taken on the local fields and keeps the offset. A result before year 1
  or after year 9999, or a \<^verbatim>\<open>timedelta\<close> too large to build, is an
  \<^verbatim>\<open>OverflowError\<close>.\<close>
definition add_hours :: "datetime \<Rightarrow> int \<Rightarrow> error + datetime" where
  "add_hours dt n =
     (let secs = ymd2ord (year dt) (month dt) (day dt) * 86400
                 + hour dt * 3600 + minute dt * 60 + second dt + n * 3600;
          days = secs div 86400;
          rem = secs mod 86400
      in if 0 < days \<and> days \<le> MAXORDINAL
         then (case ord2ymd days of (y, m, d) \<Rightarrow>
                 Inr (dt\<lparr>year := y, month := m, day := d,
                         hour := rem div 3600, minute := rem mod 3600 div 60,
                         second := rem mod 3600 mod 60\<rparr>))
         else Inl OverflowError)"

subsection \<open>\<^verbatim>\<open>dt.isoformat()\<close>\<close>

definition format_offset :: "int \<Rightarrow> string" where
  "format_offset off =
     (let a = \<bar>off\<bar>;
          hh = a div 3600000000;
          mm = a mod 3600000000 div 60000000;
          ss = a mod 60000000 div 1000000;
          us = a mod 1000000
      in (if off < 0 then ''-'' else ''+'') @ fmt_d 2 hh @ '':'' @ fmt_d 2 mm
         @ (if ss \<noteq> 0 \<or> us \<noteq> 0
            then '':'' @ fmt_d 2 ss @ (if us \<noteq> 0 then ''.'' @ fmt_d 6 us else [])
            else []))"

definition isoformat :: "datetime \<Rightarrow> string" where
  "isoformat dt =
     fmt_d 4 (year dt) @ ''-'' @ fmt_d 2 (month dt) @ ''-'' @ fmt_d 2 (day dt) @ ''T''
     @ fmt_d 2 (hour dt) @ '':'' @ fmt_d 2 (minute dt) @ '':'' @ fmt_d 2 (second dt)
     @ format_offset (utcoffset dt)"


section \<open>\<^verbatim>\<open>xml_parser.py\<close>\<close>

subsection \<open>\<^verbatim>\<open>__acknowledgement_decomposition\<close>\<close>

definition acknowledgement_decomposition :: "xval \<Rightarrow> error + xval" where
  "acknowledgement_decomposition acknowledgement_dict =
     and_then (get_path acknowledgement_dict [''Header'', ''Creation'']) (\<lambda>timestamp.
     and_then (get_path acknowledgement_dict [''Header'', ''Identification'']) (\<lambda>identification.
     and_then (get_path acknowledgement_dict
                 [''ProcessEnergyContext'', ''EnergyBusinessProcess'', ''#text''])
       (\<lambda>energy_business_process.
     and_then (get_path acknowledgement_dict [''PayloadResponseEvent'', ''StatusType'', ''#text''])
       (\<lambda>status_type.
     and_then (get_path acknowledgement_dict
                 [''PayloadResponseEvent'', ''ResponseReasonType'', ''#text''])
       (\<lambda>response_reason_type.
     and_then (get_path acknowledgement_dict
                 [''PayloadResponseEvent'', ''OriginalBusinessDocumentReference''])
       (\<lambda>original_business_document_reference.
       Inr (XDict [(''timestamp'', timestamp),
                   (''identification'', identification),
                   (''energy_business_process'', energy_business_process),
                   (''status_type'', status_type),
                   (''response_reason_type'', response_reason_type),
                   (''original_business_document_reference'',
                    original_business_document_reference)])))))))"

subsection \<open>\<^verbatim>\<open>__metering_decomposition\<close>\<close>

text \<open>Lines 84 to 109: the eight entries written into \<^verbatim>\<open>metering\<close> before the
  observations, in the order of the assignments.\<close>

definition metering_fields :: "xval \<Rightarrow> error + (string \<times> xval) list" where
  "metering_fields metering_dict =
     and_then (get_path metering_dict
                 [''PayloadEnergyTimeSeries'', ''MeteringPointUsedDomainLocation'',
                  ''Identification'', ''#text''])
       (\<lambda>metering_point.
     and_then (get_path metering_dict [''Header'', ''Creation'']) (\<lambda>timestamp.
     and_then (get_path metering_dict [''Header'', ''Identification'']) (\<lambda>identification.
     and_then (get_path metering_dict
                 [''ProcessEnergyContext'', ''EnergyBusinessProcess'', ''#text''])
       (\<lambda>energy_business_process.
     and_then (get_path metering_dict
                 [''PayloadEnergyTimeSeries'', ''ObservationPeriodTimeSeriesPeriod'', ''Start''])
       (\<lambda>start_time.
     and_then (get_path metering_dict
                 [''PayloadEnergyTimeSeries'', ''ObservationPeriodTimeSeriesPeriod'', ''End''])
       (\<lambda>end_time.
     and_then (get_path metering_dict
                 [''PayloadEnergyTimeSeries'', ''ObservationPeriodTimeSeriesPeriod'',
                  ''ResolutionDuration''])
       (\<lambda>resolution.
     and_then (get_path metering_dict
                 [''PayloadEnergyTimeSeries'', ''ProductIncludedProductCharacteristics'',
                  ''UnitType''])
       (\<lambda>unit.
       Inr [(''metering_point'', metering_point),
            (''timestamp'', timestamp),
            (''identification'', identification),
            (''energy_business_process'', energy_business_process),
            (''start_time'', start_time),
            (''end_time'', end_time),
            (''resolution'', resolution),
            (''unit'', unit)]))))))))"

text \<open>\<^verbatim>\<open>(start_time + timedelta(hours=int(e.get("@Sequence")))).isoformat()\<close>\<close>

definition observation_timestamp :: "datetime \<Rightarrow> xval \<Rightarrow> error + xval" where
  "observation_timestamp start_time e =
     and_then (dict_get e ''@Sequence'') (\<lambda>sq.
     and_then (py_int sq) (\<lambda>n.
     and_then (add_hours start_time n) (\<lambda>t. Inr (XStr (isoformat t)))))"

text \<open>One element of the comprehension of lines 118 to 129: the condition first, then the
  entries of the chosen dict display, left to right.\<close>

definition observation_entry :: "datetime \<Rightarrow> xval \<Rightarrow> error + xval" where
  "observation_entry start_time e =
     and_then (dict_get e ''Metered'') (\<lambda>c.
       if truthy c
       then and_then (observation_timestamp start_time e) (\<lambda>ts.
            and_then (dict_get e ''Metered'') (\<lambda>v.
              Inr (XDict [(''timestamp'', ts), (''value'', v)])))
       else and_then (observation_timestamp start_time e) (\<lambda>ts.
            and_then (values_index e 1) (\<lambda>x.
            and_then (dict_get x ''#text'') (\<lambda>v.
              Inr (XDict [(''timestamp'', ts), (''value'', v)])))))"

text \<open>\<^verbatim>\<open>return None\<close> is the tree \<open>XNone\<close>.\<close>

definition metering_decomposition :: "xval \<Rightarrow> error + xval" where
  "metering_decomposition metering_dict =
     and_then (metering_fields metering_dict) (\<lambda>metering.
     and_then (get_path metering_dict [''PayloadEnergyTimeSeries'', ''Observation'']) (\<lambda>c1.
       if truthy c1
       then and_then (get_path metering_dict [''PayloadEnergyTimeSeries'', ''Observation''])
              (\<lambda>observations.
            and_then (dict_get (XDict metering) ''start_time'') (\<lambda>s.
            and_then (strptime s) (\<lambda>start_time.
            and_then (iter observations) (\<lambda>items.
            and_then (comprehension (observation_entry start_time) items) (\<lambda>obs.
              Inr (XDict (metering @ [(''observations'', XList obs)])))))))
       else
         and_then (get_path metering_dict [''PayloadEnergyTimeSeries'', ''ProfiledObservation''])
           (\<lambda>c2.
           if truthy c2
           then and_then (dict_get (XDict metering) ''start_time'') (\<lambda>s.
                and_then (strptime s) (\<lambda>start_time.
                and_then (get_path metering_dict
                            [''PayloadEnergyTimeSeries'', ''ProfiledObservation''])
                  (\<lambda>observations.
                and_then (get_path observations [''Metered'', ''#text'']) (\<lambda>v.
                  Inr (XDict (metering @
                         [(''observations'',
                           XDict [(''timestamp'', XStr (isoformat start_time)),
                                  (''value'', v)])]))))))
           else Inr XNone)))"

subsection \<open>\<^verbatim>\<open>parse_metering_poll_response\<close>\<close>

text \<open>Lines 170 to 174 and 177 to 180, the same two statements for either collection:
  \<^verbatim>\<open>x = result_data_set.get(key, [])\<close>, then
  \<^verbatim>\<open>if isinstance(x, dict): x = [x]\<close>.\<close>

definition collection :: "xval \<Rightarrow> string \<Rightarrow> error + xval" where
  "collection result_data_set key =
     and_then (dict_get_default result_data_set key (XList [])) (\<lambda>x.
       Inr (if is_dict x then XList [x] else x))"

text \<open>The argument is the tree \<^verbatim>\<open>xmltodict.parse\<close> returned. The meterings are
  decomposed before the acknowledgements.\<close>

definition parse_metering_poll_response :: "xval \<Rightarrow> error + xval" where
  "parse_metering_poll_response json_response =
     and_then (get_path json_response [''Envelope'', ''Body'', ''PollForDataResponse''])
       (\<lambda>poll.
     and_then (dict_get_default poll ''ResultDataSet'' XNone) (\<lambda>result_data_set.
       if \<not> truthy result_data_set then Inl (Exception ''No Data found in the response'')
       else
         and_then (collection result_data_set ''Acknowledgement'') (\<lambda>acknowledgment.
         and_then (collection result_data_set ''NotifyValidatedDataForBillingEnergy'')
           (\<lambda>metering.
         and_then (iter metering) (\<lambda>ms.
         and_then (comprehension metering_decomposition ms) (\<lambda>metering_list.
         and_then (iter acknowledgment) (\<lambda>as.
         and_then (comprehension acknowledgement_decomposition as) (\<lambda>acknowledgment_list.
           Inr (XDict [(''meterings'', XList metering_list),
                       (''acknowledgements'', XList acknowledgment_list)])))))))))"


section \<open>The vocabulary of the claims\<close>

text \<open>The records of one kind in the source document, in document order: what the two
  loops of \<^verbatim>\<open>parse_metering_poll_response\<close> run over (\<^verbatim>\<open>xmltodict\<close> keeps
  repeated elements in a list, in the order of the document).\<close>

definition source_records :: "xval \<Rightarrow> string \<Rightarrow> error + xval list" where
  "source_records json_response key =
     and_then (get_path json_response [''Envelope'', ''Body'', ''PollForDataResponse''])
       (\<lambda>poll.
     and_then (dict_get_default poll ''ResultDataSet'' XNone) (\<lambda>result_data_set.
     and_then (collection result_data_set key) iter))"

text \<open>The value \<^verbatim>\<open>d.get(k)\<close> of a mapping: \<^verbatim>\<open>None\<close> where the key is
  absent.\<close>

definition entry :: "(string \<times> xval) list \<Rightarrow> string \<Rightarrow> xval" where
  "entry d k = (case map_of d k of None \<Rightarrow> XNone | Some v \<Rightarrow> v)"

text \<open>The normalisation of a collection in the words of the specification: an absent
  child is the empty sequence, a single mapping is the sequence of that one mapping, a
  sequence is taken as it is. The specification names no other shape of child.\<close>

fun spec_normalized :: "xval option \<Rightarrow> xval list option" where
  "spec_normalized None = Some []"
| "spec_normalized (Some (XDict d)) = Some [XDict d]"
| "spec_normalized (Some (XList xs)) = Some xs"
| "spec_normalized (Some v) = None"

subsection \<open>Sample documents\<close>

definition example_acknowledgement :: "string \<Rightarrow> xval" where
  "example_acknowledgement ident =
     XDict [(''Header'', XDict [(''Identification'', XStr ident),
                                (''Creation'', XStr ''2023-01-02T10:00:00Z'')]),
            (''ProcessEnergyContext'',
             XDict [(''EnergyBusinessProcess'',
                     XDict [(''@listAgencyIdentifier'', XStr ''89''),
                            (''#text'', XStr ''BRS-NO-315'')])]),
            (''PayloadResponseEvent'',
             XDict [(''StatusType'', XDict [(''@listAgencyIdentifier'', XStr ''6''),
                                            (''#text'', XStr ''39'')]),
                    (''ResponseReasonType'', XDict [(''@listAgencyIdentifier'', XStr ''260''),
                                                    (''#text'', XStr ''A01'')]),
                    (''OriginalBusinessDocumentReference'', XStr ''doc-1'')])]"

definition example_payload :: "string \<Rightarrow> (string \<times> xval) list \<Rightarrow> xval" where
  "example_payload start shape =
     XDict ([(''MeteringPointUsedDomainLocation'',
              XDict [(''Identification'', XDict [(''@schemeAgencyIdentifier'', XStr ''9''),
                                                 (''#text'', XStr ''707057500000000001'')])]),
             (''ProductIncludedProductCharacteristics'', XDict [(''UnitType'', XStr ''KWH'')]),
             (''ObservationPeriodTimeSeriesPeriod'',
              XDict [(''ResolutionDuration'', XStr ''PT1H''),
                     (''Start'', XStr start),
                     (''End'', XStr ''2023-01-02T00:00:00+01:00'')])] @ shape)"

definition example_process :: "string \<times> xval" where
  "example_process =
     (''ProcessEnergyContext'',
      XDict [(''EnergyBusinessProcess'', XDict [(''@listAgencyIdentifier'', XStr ''89''),
                                                (''#text'', XStr ''BRS-NO-315'')])])"

definition example_metering :: "string \<Rightarrow> string \<Rightarrow> (string \<times> xval) list \<Rightarrow> xval" where
  "example_metering ident start shape =
     XDict [(''Header'', XDict [(''Identification'', XStr ident),
                                (''Creation'', XStr ''2023-01-02T10:00:00Z'')]),
            example_process,
            (''PayloadEnergyTimeSeries'', example_payload start shape)]"

text \<open>The eight entries \<^verbatim>\<open>__metering_decomposition\<close> reads from such a record.\<close>

definition example_fields :: "string \<Rightarrow> string \<Rightarrow> (string \<times> xval) list" where
  "example_fields ident start =
     [(''metering_point'', XStr ''707057500000000001''),
      (''timestamp'', XStr ''2023-01-02T10:00:00Z''),
      (''identification'', XStr ident),
      (''energy_business_process'', XStr ''BRS-NO-315''),
      (''start_time'', XStr start),
      (''end_time'', XStr ''2023-01-02T00:00:00+01:00''),
      (''resolution'', XStr ''PT1H''),
      (''unit'', XStr ''KWH'')]"

definition example_observation :: "string \<Rightarrow> string \<Rightarrow> xval" where
  "example_observation sq v = XDict [(''@Sequence'', XStr sq), (''Metered'', XStr v)]"

definition example_response :: "(string \<times> xval) list \<Rightarrow> xval" where
  "example_response result_data_set =
     XDict [(''Envelope'',
             XDict [(''Body'',
                     XDict [(''PollForDataResponse'',
                             XDict [(''ResultDataSet'', XDict result_data_set)])])])]"


text \<open>A metering record with a ProfiledObservation, and the record the decomposer returns
  for it when its start_time stands for \<^verbatim>\<open>2023-01-01T00:00:00+01:00\<close>.\<close>

definition example_profiled :: "string \<Rightarrow> string \<Rightarrow> xval" where
  "example_profiled ident start =
     example_metering ident start
       [(''ProfiledObservation'',
         XDict [(''Metered'', XDict [(''@unit'', XStr ''KWH''), (''#text'', XStr ''7'')])])]"

definition example_profiled_record :: "string \<Rightarrow> string \<Rightarrow> xval" where
  "example_profiled_record ident start =
     XDict (example_fields ident start @
       [(''observations'',
         XDict [(''timestamp'', XStr ''2023-01-01T00:00:00+01:00''), (''value'', XStr ''7'')])])"

text \<open>The record the decomposer returns for \<open>example_acknowledgement\<close>.\<close>

definition example_acknowledgement_record :: "string \<Rightarrow> xval" where
  "example_acknowledgement_record ident =
     XDict [(''timestamp'', XStr ''2023-01-02T10:00:00Z''),
            (''identification'', XStr ident),
            (''energy_business_process'', XStr ''BRS-NO-315''),
            (''status_type'', XStr ''39''),
            (''response_reason_type'', XStr ''A01''),
            (''original_business_document_reference'', XStr ''doc-1'')]"

text \<open>A response with two acknowledgements and two metering records, the second of
  which has neither kind of observation.\<close>

definition example_document :: xval where
  "example_document =
     example_response
       [(''Acknowledgement'',
         XList [example_acknowledgement ''a1'', example_acknowledgement ''a2'']),
        (''NotifyValidatedDataForBillingEnergy'',
         XList [example_profiled ''m1'' ''2023-01-01T00:00:00+01:00'',
                example_metering ''m2'' ''2023-01-01T00:00:00+0100'' []])]"

text \<open>\<^verbatim>\<open>2023-01-01T00:00:00+01:00\<close> as a \<^verbatim>\<open>datetime\<close>.\<close>

definition example_start :: datetime where
  "example_start = \<lparr>year = 2023, month = 1, day = 1, hour = 0, minute = 0, second = 0,
                     utcoffset = 3600000000\<rparr>"


section \<open>Properties\<close>

subsection \<open>Results and errors\<close>

lemma and_then_Inl [simp]: "and_then (Inl e) f = Inl e"
  by (simp add: and_then_def)

lemma and_then_Inr [simp]: "and_then (Inr v) f = f v"
  by (simp add: and_then_def)

lemma and_then_eq_Inr: "and_then r f = Inr y \<longleftrightarrow> (\<exists>v. r = Inr v \<and> f v = Inr y)"
  by (cases r) simp_all

lemma and_then_eq_Inl:
  "and_then r f = Inl e \<longleftrightarrow> r = Inl e \<or> (\<exists>v. r = Inr v \<and> f v = Inl e)"
  by (cases r) simp_all

lemma dict_get_error: "dict_get v k = Inl e \<Longrightarrow> e = AttributeError"
  by (cases v) simp_all

lemma get_path_error: "get_path v ks = Inl e \<Longrightarrow> e = AttributeError"
proof (induction ks arbitrary: v)
  case Nil
  then show ?case by simp
next
  case (Cons k ks)
  then show ?case by (auto simp: and_then_eq_Inl dest: dict_get_error)
qed

lemma comprehension_eq_Inr:
  "comprehension f xs = Inr ys \<longleftrightarrow> list_all2 (\<lambda>x y. f x = Inr y) xs ys"
proof (induction xs arbitrary: ys)
  case Nil
  then show ?case by auto
next
  case (Cons x xs)
  then show ?case by (cases ys) (auto simp: and_then_eq_Inr)
qed

subsection \<open>Unfolding the metering decomposer and the parser\<close>



lemma observation_entry_eq_Inr:
  "observation_entry st e = Inr ob \<longleftrightarrow>
     (\<exists>c ts v. dict_get e ''Metered'' = Inr c \<and> observation_timestamp st e = Inr ts \<and>
        (if truthy c then v = c
         else and_then (values_index e 1) (\<lambda>x. dict_get x ''#text'') = Inr v) \<and>
        ob = XDict [(''timestamp'', ts), (''value'', v)])"
  unfolding observation_entry_def
  by (cases "dict_get e ''Metered''") (auto simp: and_then_eq_Inr)


lemma metering_decomposition_Inr_fields:
  "metering_decomposition m = Inr r \<Longrightarrow>
     \<exists>fs c1. metering_fields m = Inr fs \<and>
       get_path m [''PayloadEnergyTimeSeries'', ''Observation''] = Inr c1"
  unfolding metering_decomposition_def
  by (auto simp: and_then_eq_Inr simp del: get_path.simps dict_get.simps)

lemma metering_decomposition_observation:
  assumes "metering_fields m = Inr fs"
    and "get_path m [''PayloadEnergyTimeSeries'', ''Observation''] = Inr c1"
    and "truthy c1"
  shows "metering_decomposition m =
     and_then (dict_get (XDict fs) ''start_time'') (\<lambda>s.
     and_then (strptime s) (\<lambda>st.
     and_then (iter c1) (\<lambda>items.
     and_then (comprehension (observation_entry st) items) (\<lambda>obs.
       Inr (XDict (fs @ [(''observations'', XList obs)]))))))"
  using assms
  by (simp add: metering_decomposition_def del: get_path.simps dict_get.simps)

lemma get_path_sibling:
  assumes "get_path m (k # k' # ks) = Inr x"
  shows "\<exists>y. get_path m [k, k''] = Inr y"
proof -
  from assms obtain w where w: "dict_get m k = Inr w" "get_path w (k' # ks) = Inr x"
    by (auto simp: and_then_eq_Inr)
  from w(2) obtain d where "w = XDict d"
    by (cases w) simp_all
  with w(1) show ?thesis by simp
qed

lemma metering_fields_payload:
  assumes "metering_fields m = Inr fs"
  shows "\<exists>y. get_path m [''PayloadEnergyTimeSeries'', k] = Inr y"
proof -
  from assms obtain x where
    "get_path m [''PayloadEnergyTimeSeries'', ''MeteringPointUsedDomainLocation'',
                  ''Identification'', ''#text''] = Inr x"
    unfolding metering_fields_def by (auto simp: and_then_eq_Inr simp del: get_path.simps)
  then show ?thesis by (rule get_path_sibling)
qed

lemma metering_decomposition_profiled:
  assumes "metering_fields m = Inr fs"
    and "get_path m [''PayloadEnergyTimeSeries'', ''Observation''] = Inr c1"
    and "\<not> truthy c1"
    and "get_path m [''PayloadEnergyTimeSeries'', ''ProfiledObservation''] = Inr c2"
    and "truthy c2"
  shows "metering_decomposition m =
     and_then (dict_get (XDict fs) ''start_time'') (\<lambda>s.
     and_then (strptime s) (\<lambda>st.
     and_then (get_path c2 [''Metered'', ''#text'']) (\<lambda>v.
       Inr (XDict (fs @ [(''observations'',
              XDict [(''timestamp'', XStr (isoformat st)), (''value'', v)])])))))"
  using assms
  by (simp add: metering_decomposition_def del: get_path.simps dict_get.simps)

lemma metering_decomposition_neither:
  assumes "metering_fields m = Inr fs"
    and "get_path m [''PayloadEnergyTimeSeries'', ''Observation''] = Inr c1"
    and "\<not> truthy c1"
    and "get_path m [''PayloadEnergyTimeSeries'', ''ProfiledObservation''] = Inr c2"
    and "\<not> truthy c2"
  shows "metering_decomposition m = Inr XNone"
  using assms
  by (simp add: metering_decomposition_def del: get_path.simps dict_get.simps)

lemma parse_Inr_D:
  assumes "parse_metering_poll_response tree = Inr r"
  shows "\<exists>ms as outm outa.
        source_records tree ''NotifyValidatedDataForBillingEnergy'' = Inr ms \<and>
        source_records tree ''Acknowledgement'' = Inr as \<and>
        list_all2 (\<lambda>x y. metering_decomposition x = Inr y) ms outm \<and>
        list_all2 (\<lambda>x y. acknowledgement_decomposition x = Inr y) as outa \<and>
        r = XDict [(''meterings'', XList outm), (''acknowledgements'', XList outa)]"
  using assms
  unfolding parse_metering_poll_response_def source_records_def comprehension_eq_Inr [symmetric]
  by (auto simp: and_then_eq_Inr simp del: get_path.simps split: if_splits)

lemma parse_Inr_I:
  assumes "get_path tree [''Envelope'', ''Body'', ''PollForDataResponse''] = Inr poll"
    and "dict_get_default poll ''ResultDataSet'' XNone = Inr rds" and "truthy rds"
    and "source_records tree ''NotifyValidatedDataForBillingEnergy'' = Inr ms"
    and "source_records tree ''Acknowledgement'' = Inr as"
    and "comprehension metering_decomposition ms = Inr outm"
    and "comprehension acknowledgement_decomposition as = Inr outa"
  shows "parse_metering_poll_response tree =
           Inr (XDict [(''meterings'', XList outm), (''acknowledgements'', XList outa)])"
  using assms
  unfolding parse_metering_poll_response_def source_records_def
  by (auto simp: and_then_eq_Inr simp del: get_path.simps)

lemma metering_fields_start_time:
  assumes "metering_fields m = Inr fs"
  shows "dict_get (XDict fs) ''start_time'' =
           get_path m [''PayloadEnergyTimeSeries'', ''ObservationPeriodTimeSeriesPeriod'', ''Start'']"
  using assms unfolding metering_fields_def
  by (auto simp: and_then_eq_Inr simp del: get_path.simps)

lemma dict_get_default_XNone: "dict_get_default v k XNone = dict_get v k"
  by (cases v) simp_all

lemma get_path_append:
  "get_path v (ks @ ks') = and_then (get_path v ks) (\<lambda>w. get_path w ks')"
proof (induction ks arbitrary: v)
  case Nil
  then show ?case by simp
next
  case (Cons k ks)
  then show ?case by (cases "dict_get v k") simp_all
qed

lemma get_path_snoc:
  "get_path a (ks @ [k]) = and_then (get_path a ks) (\<lambda>w. dict_get w k)"
proof -
  have "get_path w [k] = dict_get w k" for w
    by (cases "dict_get w k") simp_all
  then show ?thesis
    by (simp add: get_path_append del: get_path.simps)
qed

lemma get_path_snoc_mapping:
  assumes "get_path a ks = Inr (XDict d)"
  shows "get_path a (ks @ [k]) = Inr (entry d k)"
  using assms by (simp add: get_path_snoc entry_def del: get_path.simps)

lemma get_path_snoc_Inr:
  assumes "get_path a (ks @ [k]) = Inr v"
  shows "\<exists>d. get_path a ks = Inr (XDict d) \<and> v = entry d k"
proof -
  from assms obtain w where w: "get_path a ks = Inr w" "dict_get w k = Inr v"
    unfolding get_path_snoc by (auto simp: and_then_eq_Inr)
  from w(2) obtain d where "w = XDict d" by (cases w) simp_all
  with w show ?thesis by (simp add: entry_def)
qed

lemma acknowledgement_decomposition_error:
  "acknowledgement_decomposition a = Inl e \<Longrightarrow> e = AttributeError"
  unfolding acknowledgement_decomposition_def and_then_eq_Inl
  using get_path_error by blast

lemma spec_normalized_collection:
  assumes "spec_normalized (map_of rds key) = Some xs"
  shows "collection (XDict rds) key = Inr (XList xs)"
proof (cases "map_of rds key")
  case None
  with assms show ?thesis by (simp add: collection_def)
next
  case (Some v)
  with assms show ?thesis by (cases v) (simp_all add: collection_def)
qed

lemma source_records_result_data_set:
  assumes "get_path tree [''Envelope'', ''Body'', ''PollForDataResponse'', ''ResultDataSet'']
             = Inr rds"
  shows "source_records tree key = and_then (collection rds key) iter"
proof -
  have "get_path tree ([''Envelope'', ''Body'', ''PollForDataResponse''] @ [''ResultDataSet''])
          = Inr rds"
    using assms by simp
  then obtain poll where "get_path tree [''Envelope'', ''Body'', ''PollForDataResponse''] = Inr poll"
    and "dict_get poll ''ResultDataSet'' = Inr rds"
    unfolding get_path_append by (auto simp: and_then_eq_Inr)
  then show ?thesis
    by (simp add: source_records_def dict_get_default_XNone del: get_path.simps)
qed

lemma example_strptime_colon:
  "strptime (XStr ''2023-01-01T00:00:00+01:00'') = Inr example_start"
  by code_simp

lemma example_strptime_plain:
  "strptime (XStr ''2023-01-01T00:00:00+0100'') = Inr example_start"
  by code_simp

lemma example_isoformat: "isoformat example_start = ''2023-01-01T00:00:00+01:00''"
  by code_simp

lemma example_int_of_str:
  "int_of_str ''0'' = Inr 0" "int_of_str ''1'' = Inr 1" "int_of_str ''2'' = Inr 2"
  by code_simp+

lemma example_add_hours:
  "add_hours example_start 0 = Inr example_start"
  "add_hours example_start 1 = Inr (example_start\<lparr>hour := 1\<rparr>)"
  "add_hours example_start 2 = Inr (example_start\<lparr>hour := 2\<rparr>)"
  by code_simp+

lemma example_isoformat_hours:
  "isoformat (example_start\<lparr>hour := 1\<rparr>) = ''2023-01-01T01:00:00+01:00''"
  "isoformat (example_start\<lparr>hour := 2\<rparr>) = ''2023-01-01T02:00:00+01:00''"
  by code_simp+

lemma example_metering_fields:
  "metering_fields (example_metering ident start shape) = Inr (example_fields ident start)"
  by (simp add: metering_fields_def example_metering_def example_fields_def
      example_payload_def example_process_def)

lemma example_metering_start:
  "get_path (example_metering ident start shape)
     [''PayloadEnergyTimeSeries'', ''ObservationPeriodTimeSeriesPeriod'', ''Start''] = Inr (XStr start)"
  by (simp add: example_metering_def example_payload_def example_process_def)

lemma example_metering_shape:
  "k \<notin> {''MeteringPointUsedDomainLocation'', ''ProductIncludedProductCharacteristics'',
         ''ObservationPeriodTimeSeriesPeriod''} \<Longrightarrow>
   get_path (example_metering ident start shape) [''PayloadEnergyTimeSeries'', k]
     = Inr (case map_of shape k of None \<Rightarrow> XNone | Some v \<Rightarrow> v)"
  by (simp add: example_metering_def example_payload_def example_process_def)

lemma example_profiled_decomposition:
  assumes "strptime (XStr start) = Inr example_start"
  shows "metering_decomposition (example_profiled ident start)
           = Inr (example_profiled_record ident start)"
proof -
  let ?p = "XDict [(''Metered'', XDict [(''@unit'', XStr ''KWH''), (''#text'', XStr ''7'')])]"
  let ?m = "example_metering ident start [(''ProfiledObservation'', ?p)]"
  have h4: "get_path ?m [''PayloadEnergyTimeSeries'', ''Observation''] = Inr XNone"
    by (simp add: example_metering_shape del: get_path.simps)
  have h5: "\<not> truthy XNone" by simp
  have h6: "get_path ?m [''PayloadEnergyTimeSeries'', ''ProfiledObservation''] = Inr ?p"
    by (simp add: example_metering_shape del: get_path.simps)
  have h7: "truthy ?p" by simp
  show ?thesis
    unfolding example_profiled_def example_profiled_record_def
      metering_decomposition_profiled [OF example_metering_fields h4 h5 h6 h7]
    by (simp add: example_fields_def assms example_isoformat)
qed

lemma example_neither_decomposition:
  "metering_decomposition (example_metering ident start []) = Inr XNone"
  by (rule metering_decomposition_neither [OF example_metering_fields, of _ _ _ XNone XNone])
    (simp_all add: example_metering_shape del: get_path.simps)

lemma example_acknowledgement_decomposition:
  "acknowledgement_decomposition (example_acknowledgement ident)
     = Inr (example_acknowledgement_record ident)"
  by (simp add: acknowledgement_decomposition_def example_acknowledgement_def
      example_acknowledgement_record_def)

lemma example_response_result_data_set:
  "get_path (example_response rds)
     [''Envelope'', ''Body'', ''PollForDataResponse'', ''ResultDataSet''] = Inr (XDict rds)"
  by (simp add: example_response_def)

lemma example_response_poll:
  "get_path (example_response rds) [''Envelope'', ''Body'', ''PollForDataResponse'']
     = Inr (XDict [(''ResultDataSet'', XDict rds)])"
  by (simp add: example_response_def)

lemma example_document_meterings:
  "source_records example_document ''NotifyValidatedDataForBillingEnergy''
     = Inr [example_profiled ''m1'' ''2023-01-01T00:00:00+01:00'',
            example_metering ''m2'' ''2023-01-01T00:00:00+0100'' []]"
  unfolding example_document_def
  by (simp add: source_records_result_data_set [OF example_response_result_data_set]
      collection_def)

lemma example_document_acknowledgements:
  "source_records example_document ''Acknowledgement''
     = Inr [example_acknowledgement ''a1'', example_acknowledgement ''a2'']"
  unfolding example_document_def
  by (simp add: source_records_result_data_set [OF example_response_result_data_set]
      collection_def)

lemma example_document_parse:
  "parse_metering_poll_response example_document
     = Inr (XDict [(''meterings'',
                    XList [example_profiled_record ''m1'' ''2023-01-01T00:00:00+01:00'', XNone]),
                   (''acknowledgements'',
                    XList [example_acknowledgement_record ''a1'',
                           example_acknowledgement_record ''a2''])])"
proof -
  let ?rds = "[(''Acknowledgement'',
         XList [example_acknowledgement ''a1'', example_acknowledgement ''a2'']),
        (''NotifyValidatedDataForBillingEnergy'',
         XList [example_profiled ''m1'' ''2023-01-01T00:00:00+01:00'',
                example_metering ''m2'' ''2023-01-01T00:00:00+0100'' []])]"
  have poll: "get_path example_document [''Envelope'', ''Body'', ''PollForDataResponse'']
     = Inr (XDict [(''ResultDataSet'', XDict ?rds)])"
    unfolding example_document_def by (rule example_response_poll)
  have rds: "dict_get_default (XDict [(''ResultDataSet'', XDict ?rds)]) ''ResultDataSet'' XNone
               = Inr (XDict ?rds)"
    by simp
  have tr: "truthy (XDict ?rds)" by simp
  show ?thesis
    by (rule parse_Inr_I [OF poll rds tr example_document_meterings
          example_document_acknowledgements])
      (simp_all add: example_profiled_decomposition [OF example_strptime_colon]
        example_neither_decomposition example_acknowledgement_decomposition)
qed

subsection \<open>Observation timestamps\<close>



subsection \<open>The value of an observation\<close>

text \<open>
  Claim C5, as amended. The value of an output observation is the item's Metered entry
  when \<^verbatim>\<open>e.get("Metered")\<close> is truthy, that is present and not empty; when it is
  absent or empty (\<^verbatim>\<open>None\<close> for an empty element), the value is the
  \<^verbatim>\<open>#text\<close> of the second entry of the item, in document order.
\<close>

theorem observation_value_by_truthiness:
  assumes "observation_entry st e = Inr ob"
  shows "\<exists>c ts v. dict_get e ''Metered'' = Inr c \<and>
           ob = XDict [(''timestamp'', ts), (''value'', v)] \<and>
           (truthy c \<longrightarrow> v = c) \<and>
           (\<not> truthy c \<longrightarrow> (\<exists>x. values_index e 1 = Inr x \<and> dict_get x ''#text'' = Inr v))"
  using assms unfolding observation_entry_eq_Inr
  by (auto simp: and_then_eq_Inr split: if_splits)

theorem observation_value_by_truthiness_witness:
  "observation_entry example_start (example_observation ''1'' ''2.5'')
     = Inr (XDict [(''timestamp'', XStr ''2023-01-01T01:00:00+01:00''), (''value'', XStr ''2.5'')])
   \<and> (\<exists>c ts v. dict_get (example_observation ''1'' ''2.5'') ''Metered'' = Inr c \<and>
         XDict [(''timestamp'', XStr ''2023-01-01T01:00:00+01:00''), (''value'', XStr ''2.5'')]
           = XDict [(''timestamp'', ts), (''value'', v)] \<and>
         (truthy c \<longrightarrow> v = c) \<and>
         (\<not> truthy c \<longrightarrow>
            (\<exists>x. values_index (example_observation ''1'' ''2.5'') 1 = Inr x \<and>
                 dict_get x ''#text'' = Inr v)))"
proof -
  have h: "observation_entry example_start (example_observation ''1'' ''2.5'')
     = Inr (XDict [(''timestamp'', XStr ''2023-01-01T01:00:00+01:00''), (''value'', XStr ''2.5'')])"
    by (simp add: observation_entry_def observation_timestamp_def example_observation_def
        example_int_of_str example_add_hours example_isoformat_hours)
  from h observation_value_by_truthiness [OF h] show ?thesis by blast
qed

text \<open>The claim as it was stated fails where the Metered entry is present but empty: for
  the item \<^verbatim>\<open><Observation Sequence="0"><Estimated quality="56">5</Estimated><Metered/></Observation>\<close>
  the entry is there, with the value \<^verbatim>\<open>None\<close>, and the output value is the text
  of the second entry.\<close>

theorem metered_present_but_empty_counterexample:
  "map_of [(''@Sequence'', XStr ''0''),
           (''Estimated'', XDict [(''@quality'', XStr ''56''), (''#text'', XStr ''5'')]),
           (''Metered'', XNone)] ''Metered'' = Some XNone
   \<and> observation_entry example_start
       (XDict [(''@Sequence'', XStr ''0''),
               (''Estimated'', XDict [(''@quality'', XStr ''56''), (''#text'', XStr ''5'')]),
               (''Metered'', XNone)])
     = Inr (XDict [(''timestamp'', XStr ''2023-01-01T00:00:00+01:00''), (''value'', XStr ''5'')])"
  by (simp add: observation_entry_def observation_timestamp_def
      example_int_of_str example_add_hours example_isoformat)

subsection \<open>Profiled observations\<close>

text \<open>
  Claim C6, as amended. For a metering record whose fixed fields are read, with no
  (or an empty) Observation and a non-empty ProfiledObservation, and whose start_time
  parses to \<open>st\<close>: the result is the record with a single mapping as observations,
  whose timestamp is \<open>isoformat st\<close>, the start_time parsed and written again in
  ISO form, and whose value is the text of the nested Metered; the decomposer fails
  only if Metered is no mapping.
\<close>

theorem profiled_observation_reformatted:
  assumes "metering_fields m = Inr fs"
    and "get_path m [''PayloadEnergyTimeSeries'', ''ObservationPeriodTimeSeriesPeriod'', ''Start'']
           = Inr s"
    and "strptime s = Inr st"
    and "get_path m [''PayloadEnergyTimeSeries'', ''Observation''] = Inr c1"
    and "\<not> truthy c1"
    and "get_path m [''PayloadEnergyTimeSeries'', ''ProfiledObservation''] = Inr c2"
    and "truthy c2"
  shows "metering_decomposition m =
           and_then (get_path c2 [''Metered'', ''#text'']) (\<lambda>v.
             Inr (XDict (fs @ [(''observations'',
                    XDict [(''timestamp'', XStr (isoformat st)), (''value'', v)])])))"
proof -
  have start: "dict_get (XDict fs) ''start_time'' = Inr s"
    using metering_fields_start_time [OF assms(1)] assms(2) by simp
  show ?thesis
    using metering_decomposition_profiled [OF assms(1) assms(4) assms(5) assms(6) assms(7)]
      start assms(3)
    by (simp del: dict_get.simps get_path.simps)
qed

theorem profiled_observation_reformatted_witness:
  "metering_decomposition (example_profiled ''m1'' ''2023-01-01T00:00:00+01:00'')
   = Inr (XDict (example_fields ''m1'' ''2023-01-01T00:00:00+01:00'' @
            [(''observations'',
              XDict [(''timestamp'', XStr ''2023-01-01T00:00:00+01:00''),
                     (''value'', XStr ''7'')])]))"
proof -
  let ?p = "XDict [(''Metered'', XDict [(''@unit'', XStr ''KWH''), (''#text'', XStr ''7'')])]"
  let ?m = "example_metering ''m1'' ''2023-01-01T00:00:00+01:00'' [(''ProfiledObservation'', ?p)]"
  have h4: "get_path ?m [''PayloadEnergyTimeSeries'', ''Observation''] = Inr XNone"
    by (simp add: example_metering_shape del: get_path.simps)
  have h5: "\<not> truthy XNone" by simp
  have h6: "get_path ?m [''PayloadEnergyTimeSeries'', ''ProfiledObservation''] = Inr ?p"
    by (simp add: example_metering_shape del: get_path.simps)
  have h7: "truthy ?p" by simp
  show ?thesis
    using profiled_observation_reformatted [OF example_metering_fields example_metering_start
        example_strptime_colon h4 h5 h6 h7]
    by (simp add: example_isoformat example_profiled_def)
qed

text \<open>The timestamp is not the text of start_time: an offset written
  \<^verbatim>\<open>+0100\<close> comes back as \<^verbatim>\<open>+01:00\<close>.\<close>

theorem profiled_timestamp_not_verbatim_counterexample:
  "metering_decomposition (example_profiled ''m1'' ''2023-01-01T00:00:00+0100'')
   = Inr (XDict (example_fields ''m1'' ''2023-01-01T00:00:00+0100'' @
            [(''observations'',
              XDict [(''timestamp'', XStr ''2023-01-01T00:00:00+01:00''),
                     (''value'', XStr ''7'')])]))
   \<and> ''2023-01-01T00:00:00+01:00'' \<noteq> ''2023-01-01T00:00:00+0100''"
  using example_profiled_decomposition [OF example_strptime_plain, of "''m1''"]
  by (simp add: example_profiled_record_def)

subsection \<open>Neither shape\<close>

text \<open>
  Claim C7, as amended. For a metering record whose fixed fields are read and which has
  neither a (non-empty) Observation nor a (non-empty) ProfiledObservation, the
  decomposer does not raise and returns \<^verbatim>\<open>None\<close>; in every result of the parser
  the meterings sequence is as long as the sequence of source metering records, and
  holds \<^verbatim>\<open>None\<close> at each position of such a record.
\<close>

theorem neither_shape_placeholder:
  assumes "metering_fields m = Inr fs"
    and "get_path m [''PayloadEnergyTimeSeries'', ''Observation''] = Inr c1"
    and "\<not> truthy c1"
    and "get_path m [''PayloadEnergyTimeSeries'', ''ProfiledObservation''] = Inr c2"
    and "\<not> truthy c2"
  shows "metering_decomposition m = Inr XNone
     \<and> (\<forall>tree r. parse_metering_poll_response tree = Inr r \<longrightarrow>
          (\<exists>ms outm outa.
             source_records tree ''NotifyValidatedDataForBillingEnergy'' = Inr ms \<and>
             r = XDict [(''meterings'', XList outm), (''acknowledgements'', XList outa)] \<and>
             length outm = length ms \<and>
             (\<forall>i < length ms. ms ! i = m \<longrightarrow> outm ! i = XNone)))"
proof (intro conjI allI impI)
  show none: "metering_decomposition m = Inr XNone"
    using assms by (rule metering_decomposition_neither)
  fix tree r
  assume "parse_metering_poll_response tree = Inr r"
  then obtain ms outm outa where
    ms: "source_records tree ''NotifyValidatedDataForBillingEnergy'' = Inr ms"
    and all: "list_all2 (\<lambda>x y. metering_decomposition x = Inr y) ms outm"
    and r: "r = XDict [(''meterings'', XList outm), (''acknowledgements'', XList outa)]"
    using parse_Inr_D by blast
  from all have len: "length outm = length ms"
    by (simp add: list_all2_lengthD)
  have "\<forall>i < length ms. ms ! i = m \<longrightarrow> outm ! i = XNone"
  proof (intro allI impI)
    fix i
    assume "i < length ms" and "ms ! i = m"
    with all have "metering_decomposition m = Inr (outm ! i)"
      by (auto dest: list_all2_nthD)
    with none show "outm ! i = XNone" by simp
  qed
  with ms r len show "\<exists>ms outm outa.
             source_records tree ''NotifyValidatedDataForBillingEnergy'' = Inr ms \<and>
             r = XDict [(''meterings'', XList outm), (''acknowledgements'', XList outa)] \<and>
             length outm = length ms \<and>
             (\<forall>i < length ms. ms ! i = m \<longrightarrow> outm ! i = XNone)"
    by blast
qed

theorem neither_shape_placeholder_witness:
  "metering_decomposition (example_metering ''m2'' ''2023-01-01T00:00:00+0100'' []) = Inr XNone
   \<and> (\<exists>ms outm outa.
         source_records example_document ''NotifyValidatedDataForBillingEnergy'' = Inr ms \<and>
         XDict [(''meterings'',
                 XList [example_profiled_record ''m1'' ''2023-01-01T00:00:00+01:00'', XNone]),
                (''acknowledgements'',
                 XList [example_acknowledgement_record ''a1'',
                        example_acknowledgement_record ''a2''])]
           = XDict [(''meterings'', XList outm), (''acknowledgements'', XList outa)] \<and>
         length outm = length ms \<and>
         (\<forall>i < length ms.
            ms ! i = example_metering ''m2'' ''2023-01-01T00:00:00+0100'' [] \<longrightarrow>
            outm ! i = XNone))"
proof -
  let ?m = "example_metering ''m2'' ''2023-01-01T00:00:00+0100'' []"
  have h2: "get_path ?m [''PayloadEnergyTimeSeries'', ''Observation''] = Inr XNone"
    by (simp add: example_metering_shape del: get_path.simps)
  have h4: "get_path ?m [''PayloadEnergyTimeSeries'', ''ProfiledObservation''] = Inr XNone"
    by (simp add: example_metering_shape del: get_path.simps)
  have h3: "\<not> truthy XNone" by simp
  note claim = neither_shape_placeholder [OF example_metering_fields h2 h3 h4 h3]
  show ?thesis
    using claim [THEN conjunct1]
      claim [THEN conjunct2, rule_format, OF example_document_parse]
    by (rule conjI)
qed

text \<open>Without the condition on the fixed fields the decomposer does raise: a record with
  neither kind of observation and no Header.\<close>

theorem record_without_header_counterexample:
  "get_path (XDict [example_process,
               (''PayloadEnergyTimeSeries'', example_payload ''2023-01-01T00:00:00+01:00'' [])])
     [''PayloadEnergyTimeSeries'', ''Observation''] = Inr XNone
   \<and> get_path (XDict [example_process,
               (''PayloadEnergyTimeSeries'', example_payload ''2023-01-01T00:00:00+01:00'' [])])
     [''PayloadEnergyTimeSeries'', ''ProfiledObservation''] = Inr XNone
   \<and> metering_decomposition
       (XDict [example_process,
               (''PayloadEnergyTimeSeries'', example_payload ''2023-01-01T00:00:00+01:00'' [])])
     = Inl AttributeError"
  by (simp add: metering_decomposition_def metering_fields_def example_process_def
      example_payload_def)

subsection \<open>Order of the output\<close>

text \<open>
  Claim C8. Whenever the parser returns a result, its meterings are the decompositions
  of the source NotifyValidatedDataForBillingEnergy records, position by position, and
  its acknowledgements are the decompositions of the source Acknowledgement records,
  position by position: the order of the output is the order of the document.
\<close>

theorem output_order_matches_source:
  assumes "parse_metering_poll_response tree = Inr r"
  shows "\<exists>ms as outm outa.
        source_records tree ''NotifyValidatedDataForBillingEnergy'' = Inr ms \<and>
        source_records tree ''Acknowledgement'' = Inr as \<and>
        r = XDict [(''meterings'', XList outm), (''acknowledgements'', XList outa)] \<and>
        length outm = length ms \<and>
        (\<forall>i < length ms. metering_decomposition (ms ! i) = Inr (outm ! i)) \<and>
        length outa = length as \<and>
        (\<forall>i < length as. acknowledgement_decomposition (as ! i) = Inr (outa ! i))"
proof -
  from assms obtain ms as outm outa where
    "source_records tree ''NotifyValidatedDataForBillingEnergy'' = Inr ms"
    "source_records tree ''Acknowledgement'' = Inr as"
    "list_all2 (\<lambda>x y. metering_decomposition x = Inr y) ms outm"
    "list_all2 (\<lambda>x y. acknowledgement_decomposition x = Inr y) as outa"
    "r = XDict [(''meterings'', XList outm), (''acknowledgements'', XList outa)]"
    using parse_Inr_D by blast
  then show ?thesis
    unfolding list_all2_conv_all_nth by metis
qed

theorem output_order_matches_source_witness:
  "parse_metering_poll_response example_document
     = Inr (XDict [(''meterings'',
                    XList [example_profiled_record ''m1'' ''2023-01-01T00:00:00+01:00'', XNone]),
                   (''acknowledgements'',
                    XList [example_acknowledgement_record ''a1'',
                           example_acknowledgement_record ''a2''])])
   \<and> (\<exists>ms as outm outa.
        source_records example_document ''NotifyValidatedDataForBillingEnergy'' = Inr ms \<and>
        source_records example_document ''Acknowledgement'' = Inr as \<and>
        XDict [(''meterings'',
                XList [example_profiled_record ''m1'' ''2023-01-01T00:00:00+01:00'', XNone]),
               (''acknowledgements'',
                XList [example_acknowledgement_record ''a1'',
                       example_acknowledgement_record ''a2''])]
          = XDict [(''meterings'', XList outm), (''acknowledgements'', XList outa)] \<and>
        length outm = length ms \<and>
        (\<forall>i < length ms. metering_decomposition (ms ! i) = Inr (outm ! i)) \<and>
        length outa = length as \<and>
        (\<forall>i < length as. acknowledgement_decomposition (as ! i) = Inr (outa ! i)))"
  using example_document_parse output_order_matches_source [OF example_document_parse]
  by (rule conjI)

subsection \<open>A single Observation\<close>

text \<open>
  Claim C10. The wrapping of a single occurrence is not applied to Observation. When
  the Observation of a metering record is a single mapping (one occurrence in the
  document, hence not empty), the decomposer fails: the comprehension runs over the keys
  of that mapping, and a key is a string, which has no \<^verbatim>\<open>get\<close>. No
  observation sequence of one element is produced.
\<close>

theorem single_observation_mapping_fails:
  assumes "get_path m [''PayloadEnergyTimeSeries'', ''Observation''] = Inr (XDict d)"
    and "d \<noteq> []"
  shows "(\<exists>e. metering_decomposition m = Inl e)
     \<and> (\<forall>fs s st. metering_fields m = Inr fs \<longrightarrow>
          get_path m [''PayloadEnergyTimeSeries'', ''ObservationPeriodTimeSeriesPeriod'', ''Start'']
            = Inr s \<longrightarrow>
          strptime s = Inr st \<longrightarrow>
          iter (XDict d) = Inr (map (\<lambda>kv. XStr (fst kv)) d) \<and>
          observation_entry st (XStr (fst (hd d))) = Inl AttributeError \<and>
          metering_decomposition m = Inl AttributeError)"
proof -
  obtain kv d' where d: "d = kv # d'"
    using assms(2) by (cases d) auto
  have entry: "observation_entry st (XStr k) = Inl AttributeError" for st k
    by (simp add: observation_entry_def)
  have comp: "comprehension (observation_entry st) (map (\<lambda>kv. XStr (fst kv)) d) = Inl AttributeError" for st
    by (simp add: d entry)
  have part2: "metering_decomposition m = Inl AttributeError"
    if "metering_fields m = Inr fs"
      and "get_path m [''PayloadEnergyTimeSeries'', ''ObservationPeriodTimeSeriesPeriod'', ''Start''] = Inr s"
      and "strptime s = Inr st" for fs s st
  proof -
    have "dict_get (XDict fs) ''start_time'' = Inr s"
      using metering_fields_start_time [OF that(1)] that(2) by simp
    then show ?thesis
      using metering_decomposition_observation [OF that(1) assms(1)] assms(2) that(3) comp
      by (simp del: dict_get.simps)
  qed
  have part1: "\<exists>e. metering_decomposition m = Inl e"
  proof (cases "metering_decomposition m")
    case (Inl e)
    then show ?thesis by blast
  next
    case (Inr r)
    then obtain fs c1 where fs: "metering_fields m = Inr fs" 
      using metering_decomposition_Inr_fields by blast
    have "metering_decomposition m =
     and_then (dict_get (XDict fs) ''start_time'') (\<lambda>s.
     and_then (strptime s) (\<lambda>st.
     and_then (iter (XDict d)) (\<lambda>items.
     and_then (comprehension (observation_entry st) items) (\<lambda>obs.
       Inr (XDict (fs @ [(''observations'', XList obs)]))))))"
      using metering_decomposition_observation [OF fs assms(1)] assms(2) by simp
    with Inr have False
      by (auto simp: and_then_eq_Inr comp simp del: dict_get.simps)
    then show ?thesis ..
  qed
  from part1 part2 entry show ?thesis by simp
qed

theorem single_observation_mapping_fails_witness:
  "get_path (example_metering ''m1'' ''2023-01-01T00:00:00+01:00''
               [(''Observation'', example_observation ''0'' ''1.5'')])
     [''PayloadEnergyTimeSeries'', ''Observation'']
     = Inr (XDict [(''@Sequence'', XStr ''0''), (''Metered'', XStr ''1.5'')])
   \<and> metering_decomposition
       (example_metering ''m1'' ''2023-01-01T00:00:00+01:00''
          [(''Observation'', example_observation ''0'' ''1.5'')])
     = Inl AttributeError"
proof -
  let ?m = "example_metering ''m1'' ''2023-01-01T00:00:00+01:00''
               [(''Observation'', example_observation ''0'' ''1.5'')]"
  have h: "get_path ?m [''PayloadEnergyTimeSeries'', ''Observation'']
     = Inr (XDict [(''@Sequence'', XStr ''0''), (''Metered'', XStr ''1.5'')])"
    by (simp add: example_metering_shape example_observation_def del: get_path.simps)
  have ne: "[(''@Sequence'', XStr ''0''), (''Metered'', XStr ''1.5'')] \<noteq> []" by simp
  from single_observation_mapping_fails [OF h ne]
  have "metering_decomposition ?m = Inl AttributeError"
    using example_metering_fields example_metering_start example_strptime_colon by blast
  with h show ?thesis by (rule conjI)
qed

subsection \<open>The envelope\<close>

text \<open>
  Claim C3, as amended. When the path Envelope, Body, PollForDataResponse leads to a
  mapping (an element with a child or an attribute) and its ResultDataSet is absent or
  empty, the parser fails with the exception
  \<^verbatim>\<open>Exception("No Data found in the response")\<close>; it returns no result.
\<close>

theorem parse_no_data:
  assumes "get_path tree [''Envelope'', ''Body'', ''PollForDataResponse''] = Inr (XDict p)"
    and "map_of p ''ResultDataSet'' = None \<or> (\<exists>v. map_of p ''ResultDataSet'' = Some v \<and> \<not> truthy v)"
  shows "parse_metering_poll_response tree = Inl (Exception ''No Data found in the response'')"
  using assms
  by (auto simp: parse_metering_poll_response_def simp del: get_path.simps)

theorem parse_no_data_witness:
  "parse_metering_poll_response
     (XDict [(''Envelope'', XDict [(''Body'', XDict [(''PollForDataResponse'', XDict [])])])])
     = Inl (Exception ''No Data found in the response'')
   \<and> parse_metering_poll_response
     (XDict [(''Envelope'', XDict [(''Body'',
        XDict [(''PollForDataResponse'', XDict [(''ResultDataSet'', XNone)])])])])
     = Inl (Exception ''No Data found in the response'')"
proof -
  have a: "get_path (XDict [(''Envelope'', XDict [(''Body'', XDict [(''PollForDataResponse'', XDict [])])])])
            [''Envelope'', ''Body'', ''PollForDataResponse''] = Inr (XDict [])"
    by simp
  have b: "get_path (XDict [(''Envelope'', XDict [(''Body'',
        XDict [(''PollForDataResponse'', XDict [(''ResultDataSet'', XNone)])])])])
            [''Envelope'', ''Body'', ''PollForDataResponse''] = Inr (XDict [(''ResultDataSet'', XNone)])"
    by simp
  show ?thesis
    using parse_no_data [OF a] parse_no_data [OF b] by simp
qed

text \<open>The claim as it was stated fails where PollForDataResponse is present but is not
  a mapping: for \<^verbatim>\<open><PollForDataResponse/>\<close> the entry is there, under Body, with the
  value \<^verbatim>\<open>None\<close>, there is no ResultDataSet, and
  \<^verbatim>\<open>.get("ResultDataSet", None)\<close> raises an AttributeError before the test for
  missing data is reached; likewise for an element that holds text only.\<close>

theorem empty_poll_element_counterexample:
  "get_path (XDict [(''Envelope'', XDict [(''Body'', XDict [(''PollForDataResponse'', XNone)])])])
     [''Envelope'', ''Body''] = Inr (XDict [(''PollForDataResponse'', XNone)])
   \<and> parse_metering_poll_response
       (XDict [(''Envelope'', XDict [(''Body'', XDict [(''PollForDataResponse'', XNone)])])])
     = Inl AttributeError
   \<and> parse_metering_poll_response
       (XDict [(''Envelope'', XDict [(''Body'', XDict [(''PollForDataResponse'', XStr ''none'')])])])
     = Inl AttributeError
   \<and> (Inl AttributeError :: error + xval) \<noteq> Inl (Exception ''No Data found in the response'')"
  by (simp add: parse_metering_poll_response_def)

text \<open>
  Claim C4. When the path Envelope, Body, PollForDataResponse does not lead to a mapping,
  in particular when one of its nodes is missing, the parser fails with an
  AttributeError: an error of another kind than the one for missing data, and the result
  of the call, not something caught inside.
\<close>

theorem parse_malformed_structure:
  assumes "\<not> (\<exists>p. get_path tree [''Envelope'', ''Body'', ''PollForDataResponse''] = Inr (XDict p))"
  shows "parse_metering_poll_response tree = Inl AttributeError
         \<and> parse_metering_poll_response tree \<noteq> Inl (Exception ''No Data found in the response'')"
proof (cases "get_path tree [''Envelope'', ''Body'', ''PollForDataResponse'']")
  case (Inl e)
  then have "e = AttributeError" by (rule get_path_error)
  with Inl show ?thesis
    by (simp add: parse_metering_poll_response_def del: get_path.simps)
next
  case (Inr poll)
  with assms have "\<not> is_dict poll" by (cases poll) auto
  then have "dict_get_default poll ''ResultDataSet'' XNone = Inl AttributeError"
    by (cases poll) auto
  with Inr show ?thesis
    by (simp add: parse_metering_poll_response_def del: get_path.simps)
qed

theorem parse_malformed_structure_witness:
  "parse_metering_poll_response (XDict [(''Envelope'', XDict [(''Header'', XNone)])])
     = Inl AttributeError
   \<and> parse_metering_poll_response (XDict [(''Envelope'', XDict [(''Header'', XNone)])])
     \<noteq> Inl (Exception ''No Data found in the response'')"
proof -
  have "\<not> (\<exists>p. get_path (XDict [(''Envelope'', XDict [(''Header'', XNone)])])
                 [''Envelope'', ''Body'', ''PollForDataResponse''] = Inr (XDict p))"
    by simp
  then show ?thesis by (rule parse_malformed_structure)
qed

subsection \<open>Normalising the two collections\<close>

text \<open>
  Claim C2, as amended. For a non-empty ResultDataSet mapping whose Acknowledgement and
  NotifyValidatedDataForBillingEnergy children are each absent, a single mapping or a
  sequence: an absent child gives the empty sequence, a single mapping gives the
  sequence of that one mapping, a sequence is passed on as it is (lines 170 to 180 agree
  with \<open>spec_normalized\<close>), and the result of the parser is that of applying
  \<^verbatim>\<open>__metering_decomposition\<close> and \<^verbatim>\<open>__acknowledgement_decomposition\<close> to
  these two sequences, element by element, the meterings first.
\<close>

theorem parse_decomposes_normalized_collections:
  assumes "get_path tree [''Envelope'', ''Body'', ''PollForDataResponse'', ''ResultDataSet'']
             = Inr (XDict rds)"
    and "rds \<noteq> []"
    and "spec_normalized (map_of rds ''NotifyValidatedDataForBillingEnergy'') = Some ms"
    and "spec_normalized (map_of rds ''Acknowledgement'') = Some as"
  shows "collection (XDict rds) ''NotifyValidatedDataForBillingEnergy'' = Inr (XList ms)
       \<and> collection (XDict rds) ''Acknowledgement'' = Inr (XList as)
       \<and> parse_metering_poll_response tree =
           and_then (comprehension metering_decomposition ms) (\<lambda>metering_list.
           and_then (comprehension acknowledgement_decomposition as) (\<lambda>acknowledgment_list.
             Inr (XDict [(''meterings'', XList metering_list),
                         (''acknowledgements'', XList acknowledgment_list)])))"
proof -
  have "get_path tree ([''Envelope'', ''Body'', ''PollForDataResponse''] @ [''ResultDataSet''])
          = Inr (XDict rds)"
    using assms(1) by simp
  then obtain poll where poll: "get_path tree [''Envelope'', ''Body'', ''PollForDataResponse'']
                                  = Inr poll"
    and "dict_get poll ''ResultDataSet'' = Inr (XDict rds)"
    unfolding get_path_snoc by (auto simp: and_then_eq_Inr)
  then have rds: "dict_get_default poll ''ResultDataSet'' XNone = Inr (XDict rds)"
    by (simp add: dict_get_default_XNone)
  note ms = spec_normalized_collection [OF assms(3)]
  note as = spec_normalized_collection [OF assms(4)]
  have "parse_metering_poll_response tree =
           and_then (comprehension metering_decomposition ms) (\<lambda>metering_list.
           and_then (comprehension acknowledgement_decomposition as) (\<lambda>acknowledgment_list.
             Inr (XDict [(''meterings'', XList metering_list),
                         (''acknowledgements'', XList acknowledgment_list)])))"
    unfolding parse_metering_poll_response_def
    using poll rds assms(2) ms as by (simp del: get_path.simps)
  with ms as show ?thesis by simp
qed

theorem parse_decomposes_normalized_collections_witness:
  "parse_metering_poll_response
     (example_response [(''Acknowledgement'', example_acknowledgement ''a1'')])
   = Inr (XDict [(''meterings'', XList []),
                 (''acknowledgements'', XList [example_acknowledgement_record ''a1''])])
   \<and> parse_metering_poll_response example_document
   = Inr (XDict [(''meterings'',
                  XList [example_profiled_record ''m1'' ''2023-01-01T00:00:00+01:00'', XNone]),
                 (''acknowledgements'',
                  XList [example_acknowledgement_record ''a1'',
                         example_acknowledgement_record ''a2''])])"
proof -
  have single: "spec_normalized (map_of [(''Acknowledgement'', example_acknowledgement ''a1'')]
                   ''Acknowledgement'') = Some [example_acknowledgement ''a1'']"
    by (simp add: example_acknowledgement_def)
  have absent: "spec_normalized (map_of [(''Acknowledgement'', example_acknowledgement ''a1'')]
                   ''NotifyValidatedDataForBillingEnergy'') = Some []"
    by simp
  have ne: "[(''Acknowledgement'', example_acknowledgement ''a1'')] \<noteq> []" by simp
  have one: "parse_metering_poll_response
     (example_response [(''Acknowledgement'', example_acknowledgement ''a1'')])
   = Inr (XDict [(''meterings'', XList []),
                 (''acknowledgements'', XList [example_acknowledgement_record ''a1''])])"
    using parse_decomposes_normalized_collections
      [OF example_response_result_data_set ne absent single, THEN conjunct2, THEN conjunct2]
    by (simp add: example_acknowledgement_decomposition)
  let ?rds = "[(''Acknowledgement'',
         XList [example_acknowledgement ''a1'', example_acknowledgement ''a2'']),
        (''NotifyValidatedDataForBillingEnergy'',
         XList [example_profiled ''m1'' ''2023-01-01T00:00:00+01:00'',
                example_metering ''m2'' ''2023-01-01T00:00:00+0100'' []])]"
  have path: "get_path example_document
     [''Envelope'', ''Body'', ''PollForDataResponse'', ''ResultDataSet''] = Inr (XDict ?rds)"
    unfolding example_document_def by (rule example_response_result_data_set)
  have ne2: "?rds \<noteq> []" by simp
  have ms: "spec_normalized (map_of ?rds ''NotifyValidatedDataForBillingEnergy'')
             = Some [example_profiled ''m1'' ''2023-01-01T00:00:00+01:00'',
                     example_metering ''m2'' ''2023-01-01T00:00:00+0100'' []]"
    by simp
  have acks: "spec_normalized (map_of ?rds ''Acknowledgement'')
             = Some [example_acknowledgement ''a1'', example_acknowledgement ''a2'']"
    by simp
  have many: "parse_metering_poll_response example_document
   = Inr (XDict [(''meterings'',
                  XList [example_profiled_record ''m1'' ''2023-01-01T00:00:00+01:00'', XNone]),
                 (''acknowledgements'',
                  XList [example_acknowledgement_record ''a1'',
                         example_acknowledgement_record ''a2''])])"
    using parse_decomposes_normalized_collections [OF path ne2 ms acks, THEN conjunct2, THEN conjunct2]
    by (simp add: example_profiled_decomposition [OF example_strptime_colon]
        example_neither_decomposition example_acknowledgement_decomposition)
  from one many show ?thesis by (rule conjI)
qed

text \<open>The claim as it was stated fails for a single occurrence that is not a mapping,
  which \<^verbatim>\<open>isinstance(x, dict)\<close> does not wrap. For \<^verbatim>\<open><Acknowledgement/>\<close> the
  collection stays \<^verbatim>\<open>None\<close> and the comprehension over it raises a TypeError; for
  \<^verbatim>\<open><Acknowledgement>ok</Acknowledgement>\<close> the comprehension runs over the
  characters of the text, and the decomposer is applied to a character, not to a
  record.\<close>

theorem single_occurrence_not_wrapped_counterexample:
  "collection (XDict [(''Acknowledgement'', XNone),
                      (''NotifyValidatedDataForBillingEnergy'',
                       example_metering ''m2'' ''2023-01-01T00:00:00+0100'' [])])
     ''Acknowledgement'' = Inr XNone
   \<and> parse_metering_poll_response
       (example_response [(''Acknowledgement'', XNone),
                          (''NotifyValidatedDataForBillingEnergy'',
                           example_metering ''m2'' ''2023-01-01T00:00:00+0100'' [])])
     = Inl TypeError
   \<and> source_records
       (example_response [(''Acknowledgement'', XStr ''ok'')]) ''Acknowledgement''
     = Inr [XStr ''o'', XStr ''k'']
   \<and> parse_metering_poll_response (example_response [(''Acknowledgement'', XStr ''ok'')])
     = Inl AttributeError"
proof -
  have "is_dict (example_metering ''m2'' ''2023-01-01T00:00:00+0100'' [])"
    by (simp add: example_metering_def)
  then show ?thesis
    by (simp add: parse_metering_poll_response_def source_records_def example_response_def
        collection_def example_neither_decomposition acknowledgement_decomposition_def)
qed

subsection \<open>The acknowledgement decomposer\<close>

text \<open>
  Claim C9, as amended. \<^verbatim>\<open>__acknowledgement_decomposition\<close> is pure field
  extraction. When Header, ProcessEnergyContext.EnergyBusinessProcess,
  PayloadResponseEvent and, under it, StatusType and ResponseReasonType are mappings,
  it returns the record of six entries, in this order: timestamp and identification from
  Header, the text of EnergyBusinessProcess, the texts of StatusType and
  ResponseReasonType, and OriginalBusinessDocumentReference as the subtree it is; an
  entry whose last key (Creation, Identification, \<^verbatim>\<open>#text\<close>,
  OriginalBusinessDocumentReference) is absent is \<^verbatim>\<open>None\<close>, not a failure. In
  every other case it fails, with an AttributeError; no record with fewer than six
  entries is ever returned.
\<close>

theorem acknowledgement_decomposition_six_keys_or_error:
  "(\<forall>h e p s r.
      get_path a [''Header''] = Inr (XDict h) \<and>
      get_path a [''ProcessEnergyContext'', ''EnergyBusinessProcess''] = Inr (XDict e) \<and>
      get_path a [''PayloadResponseEvent''] = Inr (XDict p) \<and>
      get_path a [''PayloadResponseEvent'', ''StatusType''] = Inr (XDict s) \<and>
      get_path a [''PayloadResponseEvent'', ''ResponseReasonType''] = Inr (XDict r) \<longrightarrow>
      acknowledgement_decomposition a =
        Inr (XDict [(''timestamp'', entry h ''Creation''),
                    (''identification'', entry h ''Identification''),
                    (''energy_business_process'', entry e ''#text''),
                    (''status_type'', entry s ''#text''),
                    (''response_reason_type'', entry r ''#text''),
                    (''original_business_document_reference'',
                     entry p ''OriginalBusinessDocumentReference'')]))
   \<and> (\<not> (\<exists>h e p s r.
      get_path a [''Header''] = Inr (XDict h) \<and>
      get_path a [''ProcessEnergyContext'', ''EnergyBusinessProcess''] = Inr (XDict e) \<and>
      get_path a [''PayloadResponseEvent''] = Inr (XDict p) \<and>
      get_path a [''PayloadResponseEvent'', ''StatusType''] = Inr (XDict s) \<and>
      get_path a [''PayloadResponseEvent'', ''ResponseReasonType''] = Inr (XDict r)) \<longrightarrow>
      acknowledgement_decomposition a = Inl AttributeError)"
proof (intro conjI allI impI)
  fix h e p s r
  assume "get_path a [''Header''] = Inr (XDict h) \<and>
      get_path a [''ProcessEnergyContext'', ''EnergyBusinessProcess''] = Inr (XDict e) \<and>
      get_path a [''PayloadResponseEvent''] = Inr (XDict p) \<and>
      get_path a [''PayloadResponseEvent'', ''StatusType''] = Inr (XDict s) \<and>
      get_path a [''PayloadResponseEvent'', ''ResponseReasonType''] = Inr (XDict r)"
  then have h: "get_path a [''Header''] = Inr (XDict h)"
    and e: "get_path a [''ProcessEnergyContext'', ''EnergyBusinessProcess''] = Inr (XDict e)"
    and p: "get_path a [''PayloadResponseEvent''] = Inr (XDict p)"
    and s: "get_path a [''PayloadResponseEvent'', ''StatusType''] = Inr (XDict s)"
    and r: "get_path a [''PayloadResponseEvent'', ''ResponseReasonType''] = Inr (XDict r)"
    by blast+
  have 1: "get_path a [''Header'', ''Creation''] = Inr (entry h ''Creation'')"
    using get_path_snoc_mapping [OF h] by simp
  have 2: "get_path a [''Header'', ''Identification''] = Inr (entry h ''Identification'')"
    using get_path_snoc_mapping [OF h] by simp
  have 3: "get_path a [''ProcessEnergyContext'', ''EnergyBusinessProcess'', ''#text'']
             = Inr (entry e ''#text'')"
    using get_path_snoc_mapping [OF e] by simp
  have 4: "get_path a [''PayloadResponseEvent'', ''StatusType'', ''#text'']
             = Inr (entry s ''#text'')"
    using get_path_snoc_mapping [OF s] by simp
  have 5: "get_path a [''PayloadResponseEvent'', ''ResponseReasonType'', ''#text'']
             = Inr (entry r ''#text'')"
    using get_path_snoc_mapping [OF r] by simp
  have 6: "get_path a [''PayloadResponseEvent'', ''OriginalBusinessDocumentReference'']
             = Inr (entry p ''OriginalBusinessDocumentReference'')"
    using get_path_snoc_mapping [OF p] by simp
  show "acknowledgement_decomposition a =
        Inr (XDict [(''timestamp'', entry h ''Creation''),
                    (''identification'', entry h ''Identification''),
                    (''energy_business_process'', entry e ''#text''),
                    (''status_type'', entry s ''#text''),
                    (''response_reason_type'', entry r ''#text''),
                    (''original_business_document_reference'',
                     entry p ''OriginalBusinessDocumentReference'')])"
    unfolding acknowledgement_decomposition_def 1 2 3 4 5 6 by simp
next
  assume no: "\<not> (\<exists>h e p s r.
      get_path a [''Header''] = Inr (XDict h) \<and>
      get_path a [''ProcessEnergyContext'', ''EnergyBusinessProcess''] = Inr (XDict e) \<and>
      get_path a [''PayloadResponseEvent''] = Inr (XDict p) \<and>
      get_path a [''PayloadResponseEvent'', ''StatusType''] = Inr (XDict s) \<and>
      get_path a [''PayloadResponseEvent'', ''ResponseReasonType''] = Inr (XDict r))"
  show "acknowledgement_decomposition a = Inl AttributeError"
  proof (cases "acknowledgement_decomposition a")
    case (Inl err)
    then show ?thesis using acknowledgement_decomposition_error by blast
  next
    case (Inr rec)
    then obtain ts ebp st rr ref where
      c1: "get_path a ([''Header''] @ [''Creation'']) = Inr ts"
      and c3: "get_path a ([''ProcessEnergyContext'', ''EnergyBusinessProcess''] @ [''#text''])
                 = Inr ebp"
      and c4: "get_path a ([''PayloadResponseEvent'', ''StatusType''] @ [''#text'']) = Inr st"
      and c5: "get_path a ([''PayloadResponseEvent'', ''ResponseReasonType''] @ [''#text''])
                 = Inr rr"
      and c6: "get_path a ([''PayloadResponseEvent''] @ [''OriginalBusinessDocumentReference''])
                 = Inr ref"
      unfolding acknowledgement_decomposition_def
      by (auto simp: and_then_eq_Inr simp del: get_path.simps)
    from get_path_snoc_Inr [OF c1] get_path_snoc_Inr [OF c3] get_path_snoc_Inr [OF c4]
      get_path_snoc_Inr [OF c5] get_path_snoc_Inr [OF c6] no
    have False by blast
    then show ?thesis ..
  qed
qed

theorem acknowledgement_decomposition_six_keys_or_error_witness:
  "acknowledgement_decomposition (example_acknowledgement ''a1'') =
     Inr (XDict [(''timestamp'', XStr ''2023-01-02T10:00:00Z''),
                 (''identification'', XStr ''a1''),
                 (''energy_business_process'', XStr ''BRS-NO-315''),
                 (''status_type'', XStr ''39''),
                 (''response_reason_type'', XStr ''A01''),
                 (''original_business_document_reference'', XStr ''doc-1'')])
   \<and> acknowledgement_decomposition (XDict [(''Header'', XNone)]) = Inl AttributeError"
proof -
  let ?a = "example_acknowledgement ''a1''"
  have good: "acknowledgement_decomposition ?a =
     Inr (XDict [(''timestamp'', XStr ''2023-01-02T10:00:00Z''),
                 (''identification'', XStr ''a1''),
                 (''energy_business_process'', XStr ''BRS-NO-315''),
                 (''status_type'', XStr ''39''),
                 (''response_reason_type'', XStr ''A01''),
                 (''original_business_document_reference'', XStr ''doc-1'')])"
    using acknowledgement_decomposition_six_keys_or_error [of ?a, THEN conjunct1, rule_format,
        of "[(''Identification'', XStr ''a1''), (''Creation'', XStr ''2023-01-02T10:00:00Z'')]"
           "[(''@listAgencyIdentifier'', XStr ''89''), (''#text'', XStr ''BRS-NO-315'')]"
           "[(''StatusType'', XDict [(''@listAgencyIdentifier'', XStr ''6''),
                                            (''#text'', XStr ''39'')]),
             (''ResponseReasonType'', XDict [(''@listAgencyIdentifier'', XStr ''260''),
                                                    (''#text'', XStr ''A01'')]),
             (''OriginalBusinessDocumentReference'', XStr ''doc-1'')]"
           "[(''@listAgencyIdentifier'', XStr ''6''), (''#text'', XStr ''39'')]"
           "[(''@listAgencyIdentifier'', XStr ''260''), (''#text'', XStr ''A01'')]"]
    by (simp add: example_acknowledgement_def entry_def)
  have "\<not> (\<exists>h. get_path (XDict [(''Header'', XNone)]) [''Header''] = Inr (XDict h))"
    by simp
  then have bad: "acknowledgement_decomposition (XDict [(''Header'', XNone)]) = Inl AttributeError"
    using acknowledgement_decomposition_six_keys_or_error [of "XDict [(''Header'', XNone)]",
        THEN conjunct2]
    by blast
  from good bad show ?thesis by (rule conjI)
qed

text \<open>The claim as it was stated fails where only the last key of a chain is missing:
  without Header.Creation, without a text in EnergyBusinessProcess and without
  OriginalBusinessDocumentReference the decomposer does not fail, and returns a record
  whose three entries are \<^verbatim>\<open>None\<close>.\<close>

theorem acknowledgement_null_fields_counterexample:
  "acknowledgement_decomposition
     (XDict [(''Header'', XDict [(''Identification'', XStr ''a1'')]),
             (''ProcessEnergyContext'',
              XDict [(''EnergyBusinessProcess'', XDict [(''@listAgencyIdentifier'', XStr ''89'')])]),
             (''PayloadResponseEvent'',
              XDict [(''StatusType'', XDict [(''#text'', XStr ''39'')]),
                     (''ResponseReasonType'', XDict [(''#text'', XStr ''A01'')])])])
   = Inr (XDict [(''timestamp'', XNone),
                 (''identification'', XStr ''a1''),
                 (''energy_business_process'', XNone),
                 (''status_type'', XStr ''39''),
                 (''response_reason_type'', XStr ''A01''),
                 (''original_business_document_reference'', XNone)])"
  by (simp add: acknowledgement_decomposition_def)

end
